theory Spec2Isabelle
  imports Main
begin

section \<open>JavaScript values as the handlers see them\<close>

text \<open>
  The server of \<^verbatim>\<open>deploy/index.js\<close> handles JSON-like data: the provider profile, the
  user object kept in the session, the objects handed to \<^verbatim>\<open>res.json\<close>. A value is
  \<^verbatim>\<open>undefined\<close>, \<^verbatim>\<open>null\<close>, a boolean, a string, an array or an object whose
  properties are kept in insertion order. Numbers and functions do not occur in the
  code paths modelled here and are left out.
\<close>

datatype jsval =
    Undefined
  | Null
  | JBool bool
  | JStr string
  | JArr "jsval list"
  | JObj "(string \<times> jsval) list"

text \<open>
  An exception: a \<open>TypeError\<close> for reading a property of \<^verbatim>\<open>undefined\<close> or
  \<^verbatim>\<open>null\<close>, which carries the name of that property, or an \<open>Error\<close> with its
  message, reported by a dependency.
\<close>

datatype js_error = TypeError string | Error string

text \<open>Truthiness, as \<^verbatim>\<open>if (x)\<close>, \<^verbatim>\<open>!x\<close>, \<^verbatim>\<open>x ? a : b\<close> and \<^verbatim>\<open>x || y\<close> test it.\<close>

fun truthy :: "jsval \<Rightarrow> bool" where
  "truthy Undefined = False"
| "truthy Null = False"
| "truthy (JBool b) = b"
| "truthy (JStr s) = (s \<noteq> [])"
| "truthy (JArr xs) = True"
| "truthy (JObj kvs) = True"

text \<open>\<^verbatim>\<open>a || b\<close>: the left operand when it is truthy, the right one otherwise.\<close>

definition js_or :: "jsval \<Rightarrow> jsval \<Rightarrow> jsval" where
  "js_or a b = (if truthy a then a else b)"

text \<open>
  \<^verbatim>\<open>x.key\<close> for the property names the source reads (\<^verbatim>\<open>id\<close>, \<^verbatim>\<open>emails\<close>,
  \<^verbatim>\<open>photos\<close>, \<^verbatim>\<open>displayName\<close>, \<^verbatim>\<open>value\<close>, \<^verbatim>\<open>email\<close>, \<^verbatim>\<open>name\<close>,
  \<^verbatim>\<open>provider\<close>, \<^verbatim>\<open>avatarUrl\<close>): reading a property of \<^verbatim>\<open>undefined\<close> or
  \<^verbatim>\<open>null\<close> throws a TypeError, an object yields its own property or
  \<^verbatim>\<open>undefined\<close>, and every other value has none of these properties.
\<close>

fun js_get :: "jsval \<Rightarrow> string \<Rightarrow> js_error + jsval" where
  "js_get Undefined k = Inl (TypeError k)"
| "js_get Null k = Inl (TypeError k)"
| "js_get (JObj kvs) k = Inr (case map_of kvs k of Some v \<Rightarrow> v | None \<Rightarrow> Undefined)"
| "js_get (JBool b) k = Inr Undefined"
| "js_get (JStr s) k = Inr Undefined"
| "js_get (JArr xs) k = Inr Undefined"

text \<open>
  \<^verbatim>\<open>x[0]\<close>: a TypeError on \<^verbatim>\<open>undefined\<close> and \<^verbatim>\<open>null\<close>, the first element of an
  array and the first character of a string, \<^verbatim>\<open>undefined\<close> when there is none, and
  the property \<^verbatim>\<open>"0"\<close> of an object.
\<close>

fun js_at0 :: "jsval \<Rightarrow> js_error + jsval" where
  "js_at0 Undefined = Inl (TypeError ''0'')"
| "js_at0 Null = Inl (TypeError ''0'')"
| "js_at0 (JArr xs) = Inr (case xs of [] \<Rightarrow> Undefined | x # _ \<Rightarrow> x)"
| "js_at0 (JStr s) = Inr (case s of [] \<Rightarrow> Undefined | c # _ \<Rightarrow> JStr [c])"
| "js_at0 (JObj kvs) = Inr (case map_of kvs ''0'' of Some v \<Rightarrow> v | None \<Rightarrow> Undefined)"
| "js_at0 (JBool b) = Inr Undefined"

text \<open>Sequencing of steps that may throw.\<close>

definition bind_err :: "js_error + 'a \<Rightarrow> ('a \<Rightarrow> js_error + 'b) \<Rightarrow> js_error + 'b" where
  "bind_err m f = (case m of Inl e \<Rightarrow> Inl e | Inr v \<Rightarrow> f v)"

text \<open>
  String conversion, as a template literal \<^verbatim>\<open>${x}\<close> performs it: an array is its
  elements joined by commas, with \<^verbatim>\<open>undefined\<close> and \<^verbatim>\<open>null\<close> elements empty.
\<close>

fun join_comma :: "string list \<Rightarrow> string" where
  "join_comma [] = []"
| "join_comma [s] = s"
| "join_comma (s # t # ss) = s @ '','' @ join_comma (t # ss)"

fun to_string :: "jsval \<Rightarrow> string" where
  "to_string Undefined = ''undefined''"
| "to_string Null = ''null''"
| "to_string (JBool b) = (if b then ''true'' else ''false'')"
| "to_string (JStr s) = s"
| "to_string (JArr xs) =
     join_comma (map (\<lambda>x. if x = Undefined \<or> x = Null then [] else to_string x) xs)"
| "to_string (JObj kvs) = ''[object Object]''"

section \<open>Environment, requests and responses\<close>

text \<open>
  \<^verbatim>\<open>process.env\<close> maps variable names to strings; an unset variable reads as
  \<^verbatim>\<open>undefined\<close>.
\<close>

type_synonym env = "string \<rightharpoonup> string"

definition env_get :: "env \<Rightarrow> string \<Rightarrow> jsval" where
  "env_get e k = (case e k of None \<Rightarrow> Undefined | Some s \<Rightarrow> JStr s)"

text \<open>
  What the handlers modelled here read of the request: the result of
  \<^verbatim>\<open>req.isAuthenticated()\<close> and \<^verbatim>\<open>req.user\<close>.
\<close>

record request =
  isAuthenticated :: bool
  user :: jsval

text \<open>
  What a handler writes: the status (200 unless \<^verbatim>\<open>res.status\<close> sets it, 302 for
  \<^verbatim>\<open>res.redirect\<close>) and the body. \<open>Json v\<close> is the value handed to
  \<^verbatim>\<open>res.json\<close>, \<open>Html s\<close> the text handed to \<^verbatim>\<open>res.send\<close> and
  \<open>Redirect url\<close> the target of \<^verbatim>\<open>res.redirect\<close>.
\<close>

datatype body = Json jsval | Html string | Redirect string

record response =
  status :: nat
  body :: body

definition res_json :: "nat \<Rightarrow> jsval \<Rightarrow> response" where
  "res_json st v = \<lparr>status = st, body = Json v\<rparr>"

definition res_send :: "string \<Rightarrow> response" where
  "res_send html = \<lparr>status = 200, body = Html html\<rparr>"

definition res_redirect :: "string \<Rightarrow> response" where
  "res_redirect url = \<lparr>status = 302, body = Redirect url\<rparr>"

section \<open>The health route of both servers\<close>

text \<open>
  \<^verbatim>\<open>new Date().toISOString()\<close> reads the clock; the handlers take the formatted
  time as \<open>now\<close>.
\<close>

definition health :: "env \<Rightarrow> string \<Rightarrow> request \<Rightarrow> response" where
  "health e now req =
     res_json 200 (JObj [(''status'', JStr ''healthy''),
                         (''timestamp'', JStr now),
                         (''env'', js_or (env_get e ''NODE_ENV'') (JStr ''development''))])"

definition health_basic :: "env \<Rightarrow> string \<Rightarrow> request \<Rightarrow> response" where
  "health_basic e now req =
     res_json 200 (JObj [(''status'', JStr ''healthy''),
                         (''timestamp'', JStr now),
                         (''env'', js_or (env_get e ''NODE_ENV'') (JStr ''development''))])"

section \<open>The enhanced server: configuration at start-up\<close>

text \<open>
  The Google strategy is registered only when both credentials are set (the guard of
  \<^verbatim>\<open>if (process.env.GOOGLE_CLIENT_ID && process.env.GOOGLE_CLIENT_SECRET)\<close>). The
  strategy constructor belongs to a dependency; it is the parameter \<open>mk\<close>, which
  may throw. Nothing else executed at start-up reads the credentials.
\<close>

definition strategy_options :: "env \<Rightarrow> jsval" where
  "strategy_options e =
     JObj [(''clientID'', env_get e ''GOOGLE_CLIENT_ID''),
           (''clientSecret'', env_get e ''GOOGLE_CLIENT_SECRET''),
           (''callbackURL'', JStr ''/auth/google/callback'')]"

record 's app =
  strategies :: "(string \<times> 's) list"

definition startup :: "(jsval \<Rightarrow> js_error + 's) \<Rightarrow> env \<Rightarrow> js_error + 's app" where
  "startup mk e =
     (if truthy (env_get e ''GOOGLE_CLIENT_ID'') \<and> truthy (env_get e ''GOOGLE_CLIENT_SECRET'')
      then bind_err (mk (strategy_options e)) (\<lambda>s. Inr \<lparr>strategies = [(''google'', s)]\<rparr>)
      else Inr \<lparr>strategies = []\<rparr>)"

section \<open>The authentication middleware and the protected routes\<close>

text \<open>
  A handler either throws or produces a response. \<^verbatim>\<open>requireAuth\<close> gets the
  downstream handler as \<open>next\<close> and calls it only for an authenticated request.
\<close>

type_synonym handler = "request \<Rightarrow> js_error + response"

definition requireAuth :: "request \<Rightarrow> handler \<Rightarrow> js_error + response" where
  "requireAuth req next =
     (if isAuthenticated req then next req
      else Inr (res_json 401 (JObj [(''error'', JStr ''Authentication required'')])))"

definition dashboard :: handler where
  \<open>dashboard req =
     bind_err (js_get (user req) ''name'') (\<lambda>name.
     bind_err (js_get (user req) ''email'') (\<lambda>email.
     bind_err (js_get (user req) ''provider'') (\<lambda>provider.
     bind_err (js_get (user req) ''avatarUrl'') (\<lambda>avatarUrl.
       Inr (res_send (
         ''\<newline>    <h1>'' @ [CHR 0xE2, CHR 0x9C, CHR 0x85] @ '' Welcome '' @ to_string name @ ''!</h1>''
         @ ''\<newline>    <p>Email: '' @ to_string email @ ''</p>''
         @ ''\<newline>    <p>Provider: '' @ to_string provider @ ''</p>''
         @ ''\<newline>    <img src="'' @ to_string avatarUrl @ ''" width="50" height="50">''
         @ ''\<newline>    <br><br>''
         @ ''\<newline>    <a href="/api/user">View User API</a><br>''
         @ ''\<newline>    <a href="/auth/logout">Logout</a><br>''
         @ ''\<newline>    <a href="/">Home</a>''
         @ ''\<newline>  ''))))))\<close>

definition api_user :: handler where
  "api_user req =
     bind_err (js_get (user req) ''id'') (\<lambda>uid.
     bind_err (js_get (user req) ''email'') (\<lambda>email.
     bind_err (js_get (user req) ''name'') (\<lambda>name.
     bind_err (js_get (user req) ''provider'') (\<lambda>provider.
     bind_err (js_get (user req) ''avatarUrl'') (\<lambda>avatarUrl.
       Inr (res_json 200 (JObj [(''id'', uid), (''email'', email), (''name'', name),
                                (''provider'', provider), (''avatarUrl'', avatarUrl)])))))))"

definition dashboard_route :: handler where
  "dashboard_route req = requireAuth req dashboard"

text \<open>
  The server mounts a rate limiter on \<^verbatim>\<open>/api/\<close> ahead of its routes, so a request
  to \<^verbatim>\<open>/api/user\<close> passes the limiter before \<open>requireAuth\<close>. The limiter is
  built by \<^verbatim>\<open>rateLimit\<close> of a dependency from the server's options: a window of 15
  minutes, at most 100 requests, and a message. It either answers the request itself or
  lets it through (\<open>None\<close>); \<open>rateLimit\<close> is a parameter. The option
  \<^verbatim>\<open>max\<close> is the field \<open>max_opt\<close>.
\<close>

record rate_options =
  windowMs :: nat
  max_opt :: nat
  message :: string

type_synonym middleware = "request \<Rightarrow> response option"

definition limiter :: "(rate_options \<Rightarrow> middleware) \<Rightarrow> middleware" where
  "limiter rateLimit =
     rateLimit \<lparr>windowMs = 15 * 60 * 1000, max_opt = 100,
                message = ''Too many requests from this IP, please try again later.''\<rparr>"

definition api_user_route :: "(rate_options \<Rightarrow> middleware) \<Rightarrow> handler" where
  "api_user_route rateLimit req =
     (case limiter rateLimit req of
        Some r \<Rightarrow> Inr r
      | None \<Rightarrow> requireAuth req api_user)"

section \<open>Login, logout and the home page\<close>

text \<open>
  \<^verbatim>\<open>GET /auth/google\<close> answers 500 itself when the client id is unset and hands the
  request to \<^verbatim>\<open>passport.authenticate\<close> otherwise; that call belongs to a dependency
  and is the parameter \<open>authenticate\<close>.
\<close>

definition auth_google ::
  "env \<Rightarrow> (string \<Rightarrow> jsval \<Rightarrow> handler) \<Rightarrow> handler" where
  "auth_google e authenticate req =
     (if \<not> truthy (env_get e ''GOOGLE_CLIENT_ID'')
      then Inr (res_json 500 (JObj [(''error'', JStr ''Google OAuth not configured'')]))
      else authenticate ''google'' (JObj [(''scope'', JArr [JStr ''profile'', JStr ''email''])]) req)"

definition login_failed :: handler where
  \<open>login_failed req =
     Inr (res_send (
       ''\<newline>    <h1>'' @ [CHR 0xE2, CHR 0x9D, CHR 0x8C] @ '' Login Failed</h1>''
       @ ''\<newline>    <p>OAuth configuration might be incorrect.</p>''
       @ ''\<newline>    <a href="/">Go back home</a>''
       @ ''\<newline>  ''))\<close>

text \<open>
  \<^verbatim>\<open>GET /auth/logout\<close>: \<^verbatim>\<open>req.logout\<close> belongs to a dependency and hands its
  callback an error or nothing; \<open>err\<close> is that argument.
\<close>

definition auth_logout :: "jsval \<Rightarrow> request \<Rightarrow> response" where
  "auth_logout err req =
     (if truthy err then res_json 500 (JObj [(''error'', JStr ''Logout failed'')])
      else res_redirect ''/'')"

definition home :: "env \<Rightarrow> handler" where
  \<open>home e req =
     (let isLoggedIn = isAuthenticated req in
      bind_err (if isLoggedIn then js_get (user req) ''email'' else Inr (JStr ''Not logged in'')) (\<lambda>who.
        Inr (res_send (
          ''\<newline>    <h1>'' @ [CHR 0xF0, CHR 0x9F, CHR 0x9A, CHR 0x80] @ '' SiftPilot - Email Automation Platform</h1>''
          @ ''\<newline>    <p>Status: '' @ to_string (js_or (env_get e ''NODE_ENV'') (JStr ''development'')) @ ''</p>''
          @ ''\<newline>    <p>Database: '' @ (if truthy (env_get e ''DATABASE_URL'') then ''Connected'' else ''Not configured'') @ ''</p>''
          @ ''\<newline>    <p>User: '' @ to_string who @ ''</p>''
          @ ''\<newline>    <br>''
          @ ''\<newline>    '' @ (if isLoggedIn
                then ''<a href="/dashboard">Dashboard</a><br>\<newline>       <a href="/auth/logout">Logout</a><br>''
                else ''<a href="/auth/google">Login with Google</a><br>'')
          @ ''\<newline>    <a href="/test">Test API</a><br>''
          @ ''\<newline>    <a href="/health">Health Check</a>''
          @ ''\<newline>  ''))))\<close>

text \<open>The error-handling middleware answers every thrown error alike.\<close>

definition error_middleware :: "js_error \<Rightarrow> response" where
  "error_middleware err = res_json 500 (JObj [(''error'', JStr ''Internal server error'')])"

definition serve :: "handler \<Rightarrow> request \<Rightarrow> response" where
  "serve h req = (case h req of Inl err \<Rightarrow> error_middleware err | Inr r \<Rightarrow> r)"

section \<open>Passport callbacks supplied by the server\<close>

text \<open>
  \<^verbatim>\<open>done(null, x)\<close> is the result \<open>Inr x\<close>. Both session callbacks pass the user
  through unchanged.
\<close>

definition serializeUser :: "jsval \<Rightarrow> js_error + jsval" where
  "serializeUser u = Inr u"

definition deserializeUser :: "jsval \<Rightarrow> js_error + jsval" where
  "deserializeUser u = Inr u"

text \<open>
  The verify callback of the Google strategy builds the user object from the profile.
  The two tokens are not read.
\<close>

definition verify :: "jsval \<Rightarrow> jsval \<Rightarrow> jsval \<Rightarrow> js_error + jsval" where
  "verify accessToken refreshToken profile =
     bind_err (js_get profile ''id'') (\<lambda>pid.
     bind_err (js_get profile ''emails'') (\<lambda>emails.
     bind_err (js_at0 emails) (\<lambda>email0.
     bind_err (js_get email0 ''value'') (\<lambda>email.
     bind_err (js_get profile ''displayName'') (\<lambda>displayName.
     bind_err (js_get profile ''photos'') (\<lambda>photos.
     bind_err (js_at0 photos) (\<lambda>photo0.
     bind_err (js_get photo0 ''value'') (\<lambda>avatarUrl.
       Inr (JObj [(''id'', pid), (''email'', email), (''name'', displayName),
                  (''provider'', JStr ''google''), (''avatarUrl'', avatarUrl)])))))))))"

section \<open>The Principal of the specification\<close>

text \<open>
  The user object built by \<open>verify\<close> is the server's Principal. Its properties
  \<^verbatim>\<open>id\<close> and \<^verbatim>\<open>name\<close> carry what the data model calls \<^verbatim>\<open>externalId\<close> and
  \<^verbatim>\<open>displayName\<close>; the other three properties keep their names.
\<close>

record principal =
  externalId :: jsval
  email :: jsval
  displayName :: jsval
  provider :: jsval
  avatarUrl :: jsval

definition js_prop :: "jsval \<Rightarrow> string \<Rightarrow> jsval" where
  "js_prop v k = (case js_get v k of Inl _ \<Rightarrow> Undefined | Inr x \<Rightarrow> x)"

text \<open>
  \<^verbatim>\<open>xs[0].value\<close> where it can be read, \<^verbatim>\<open>undefined\<close> where the read throws.
\<close>

definition first_value :: "jsval \<Rightarrow> jsval" where
  "first_value xs =
     (case bind_err (js_at0 xs) (\<lambda>x. js_get x ''value'') of Inl _ \<Rightarrow> Undefined | Inr v \<Rightarrow> v)"

text \<open>\<^verbatim>\<open>p.k[0].value\<close> with its exceptions.\<close>

definition first_value_of :: "jsval \<Rightarrow> string \<Rightarrow> js_error + jsval" where
  "first_value_of p k =
     bind_err (js_get p k) (\<lambda>xs. bind_err (js_at0 xs) (\<lambda>x. js_get x ''value''))"

definition principal_of :: "jsval \<Rightarrow> principal" where
  "principal_of u =
     \<lparr>externalId = js_prop u ''id'', email = js_prop u ''email'', displayName = js_prop u ''name'',
      provider = js_prop u ''provider'', avatarUrl = js_prop u ''avatarUrl''\<rparr>"

section \<open>The session store\<close>

text \<open>
  The store that keeps the serialized user between requests is not part of the
  server's source, which only configures it (a cookie lifetime of 24 hours) and supplies
  \<open>serializeUser\<close> and \<open>deserializeUser\<close>. Times are milliseconds.
\<close>

record sess =
  stored :: "jsval option"
  createdAt :: nat
  expiresAt :: nat

type_synonym store = "string \<rightharpoonup> sess"

datatype store_error = NotFound | SerializeFailed js_error

definition maxAge :: nat where
  "maxAge = 24 * 60 * 60 * 1000"

text \<open>
  Modelled from the spec: \<^verbatim>\<open>create\<close> of the Session Store (section 4.2), absent from
  the source. It allocates a session under the fresh random identifier \<open>sid\<close>, with
  no Principal yet and expiry 24 hours after \<open>now\<close>.
\<close>

definition create :: "store \<Rightarrow> nat \<Rightarrow> string \<Rightarrow> store" where
  "create st now sid = st(sid \<mapsto> \<lparr>stored = None, createdAt = now, expiresAt = now + maxAge\<rparr>)"

text \<open>
  Modelled from the spec: \<^verbatim>\<open>get\<close> of the Session Store (section 4.2), absent from the
  source. It returns the session only if it exists and \<open>now < expiresAt\<close>.
\<close>

definition get :: "store \<Rightarrow> nat \<Rightarrow> string \<Rightarrow> sess option" where
  "get st now sid =
     (case st sid of None \<Rightarrow> None
      | Some s \<Rightarrow> if now < expiresAt s then Some s else None)"

text \<open>
  Modelled from the spec: \<^verbatim>\<open>attach\<close> of the Session Store (section 4.2), absent from
  the source. It sets the Principal on an existing session and fails with
  \<open>NotFound\<close> for an unknown or expired one.
\<close>

definition attach :: "store \<Rightarrow> nat \<Rightarrow> string \<Rightarrow> jsval \<Rightarrow> store_error + store" where
  "attach st now sid p =
     (case get st now sid of None \<Rightarrow> Inl NotFound
      | Some s \<Rightarrow> Inr (st(sid \<mapsto> s\<lparr>stored := Some p\<rparr>)))"

text \<open>
  Modelled from the spec: \<^verbatim>\<open>destroy\<close> of the Session Store (section 4.2), absent from
  the source. It removes the session unconditionally.
\<close>

definition destroy :: "store \<Rightarrow> string \<Rightarrow> store" where
  "destroy st sid = st(sid := None)"

text \<open>
  Completing a login keeps what the server's \<open>serializeUser\<close> returns for the user.
\<close>

definition login :: "store \<Rightarrow> nat \<Rightarrow> string \<Rightarrow> jsval \<Rightarrow> store_error + store" where
  "login st now sid u =
     (case serializeUser u of Inl e \<Rightarrow> Inl (SerializeFailed e)
      | Inr ser \<Rightarrow> attach st now sid ser)"

text \<open>
  Modelled from the spec: \<^verbatim>\<open>authorize\<close> of the Access Guard (section 4.3), absent
  from the source. It looks the session up and yields \<open>Unauthenticated\<close> when the
  session is absent or lacks a Principal; the stored value is read back through the
  server's \<open>deserializeUser\<close>.
\<close>

datatype auth_result = Authenticated jsval | Unauthenticated

definition authorize :: "store \<Rightarrow> nat \<Rightarrow> string \<Rightarrow> auth_result" where
  "authorize st now sid =
     (case get st now sid of None \<Rightarrow> Unauthenticated
      | Some s \<Rightarrow>
          (case stored s of None \<Rightarrow> Unauthenticated
           | Some ser \<Rightarrow>
               (case deserializeUser ser of Inl _ \<Rightarrow> Unauthenticated
                | Inr u \<Rightarrow> Authenticated u)))"

text \<open>The request a protected route sees for the session \<open>sid\<close> at time \<open>now\<close>.\<close>

definition request_of :: "store \<Rightarrow> nat \<Rightarrow> string \<Rightarrow> request" where
  "request_of st now sid =
     (case authorize st now sid of
        Unauthenticated \<Rightarrow> \<lparr>isAuthenticated = False, user = Undefined\<rparr>
      | Authenticated u \<Rightarrow> \<lparr>isAuthenticated = True, user = u\<rparr>)"

text \<open>Store operations of other requests, run in sequence.\<close>

datatype store_op = Create nat string | Attach nat string jsval | Destroy string

fun op_sid :: "store_op \<Rightarrow> string" where
  "op_sid (Create now sid) = sid"
| "op_sid (Attach now sid p) = sid"
| "op_sid (Destroy sid) = sid"

fun run_op :: "store \<Rightarrow> store_op \<Rightarrow> store" where
  "run_op st (Create now sid) = create st now sid"
| "run_op st (Attach now sid p) = (case attach st now sid p of Inl _ \<Rightarrow> st | Inr st' \<Rightarrow> st')"
| "run_op st (Destroy sid) = destroy st sid"

definition run_ops :: "store \<Rightarrow> store_op list \<Rightarrow> store" where
  "run_ops st ops = foldl run_op st ops"

section \<open>The Google strategy as the server configures it\<close>

text \<open>
  \<^verbatim>\<open>passport.authenticate('google', ...)\<close> runs the OAuth 2.0 strategy of the
  passport dependency, whose code is not part of the server's source. What follows is
  that strategy's flow for the options the server passes to its constructor
  (\<open>strategy_options\<close>) and for a callback that carries an authorization code. The
  strategy keeps and compares an anti-forgery state only when it is constructed with a
  truthy \<^verbatim>\<open>state\<close> or \<^verbatim>\<open>store\<close> option; otherwise it sends no state to the
  provider and accepts every state on return.
\<close>

definition state_checking :: "jsval \<Rightarrow> bool" where
  "state_checking opts = (truthy (js_prop opts ''store'') \<or> truthy (js_prop opts ''state''))"

text \<open>
  The first leg: the state kept in the session and sent to the provider, \<open>nonce\<close>
  being the fresh random value; \<^verbatim>\<open>undefined\<close> when no state is issued.
\<close>

definition oauth2_begin :: "jsval \<Rightarrow> string \<Rightarrow> jsval" where
  "oauth2_begin opts nonce = (if state_checking opts then JStr nonce else Undefined)"

text \<open>
  The provider: exchanging an authorization code for the access and refresh tokens,
  and fetching the profile for an access token. Both are calls over the network and
  may fail.
\<close>

record provider =
  getOAuthAccessToken :: "jsval \<Rightarrow> js_error + jsval \<times> jsval"
  userProfile :: "jsval \<Rightarrow> js_error + jsval"

datatype provider_call = Exchange jsval | FetchProfile jsval

text \<open>
  The callback's query parameters and the state the session holds from the first leg.
\<close>

record callback =
  query_code :: jsval
  query_state :: jsval
  session_state :: jsval

datatype outcome =
    Success jsval
  | Fail
  | Failed js_error
  | Rejected js_error

text \<open>
  The second leg. The result lists the provider calls made, in order. \<open>Fail\<close> is
  an authentication failure, \<open>Failed\<close> an error of a provider call, and
  \<open>Rejected\<close> an exception of the server's asynchronous \<open>verify\<close>, after which
  \<^verbatim>\<open>done\<close> is never called.
\<close>

definition oauth2_complete ::
  "jsval \<Rightarrow> provider \<Rightarrow> callback \<Rightarrow> provider_call list \<times> outcome" where
  "oauth2_complete opts prov cb =
     (if state_checking opts \<and>
         \<not> (truthy (session_state cb) \<and> query_state cb = session_state cb)
      then ([], Fail)
      else case getOAuthAccessToken prov (query_code cb) of
             Inl e \<Rightarrow> ([Exchange (query_code cb)], Failed e)
           | Inr (accessToken, refreshToken) \<Rightarrow>
               (case userProfile prov accessToken of
                  Inl e \<Rightarrow> ([Exchange (query_code cb), FetchProfile accessToken], Failed e)
                | Inr profile \<Rightarrow>
                    ([Exchange (query_code cb), FetchProfile accessToken],
                     case verify accessToken refreshToken profile of
                       Inl e \<Rightarrow> Rejected e
                     | Inr u \<Rightarrow> if truthy u then Success u else Fail)))"

text \<open>
  \<^verbatim>\<open>GET /auth/google/callback\<close>: a success goes on to the server's handler, which
  redirects to the dashboard; a failure is redirected to \<^verbatim>\<open>/login-failed\<close> (the
  \<^verbatim>\<open>failureRedirect\<close> option); an error reaches the error-handling middleware; no
  response is written after a rejected \<open>verify\<close>. Without both credentials no
  strategy named \<^verbatim>\<open>google\<close> is registered and the route ends in an error.
\<close>

definition auth_google_callback ::
  "env \<Rightarrow> provider \<Rightarrow> callback \<Rightarrow> provider_call list \<times> response option" where
  \<open>auth_google_callback e prov cb =
     (if truthy (env_get e ''GOOGLE_CLIENT_ID'') \<and> truthy (env_get e ''GOOGLE_CLIENT_SECRET'')
      then (case oauth2_complete (strategy_options e) prov cb of
              (calls, Success u) \<Rightarrow> (calls, Some (res_redirect ''/dashboard''))
            | (calls, Fail) \<Rightarrow> (calls, Some (res_redirect ''/login-failed''))
            | (calls, Failed err) \<Rightarrow> (calls, Some (error_middleware err))
            | (calls, Rejected err) \<Rightarrow> (calls, None))
      else ([], Some (error_middleware (Error ''Unknown authentication strategy "google"''))))\<close>

section \<open>Concrete inputs\<close>

text \<open>
  The profile of the end-to-end scenario, in the shape the strategy hands to
  \<open>verify\<close>: the provider's \<^verbatim>\<open>sub\<close>, \<^verbatim>\<open>email\<close>, \<^verbatim>\<open>name\<close> and
  \<^verbatim>\<open>picture\<close> arrive as \<^verbatim>\<open>id\<close>, \<^verbatim>\<open>emails[0].value\<close>, \<^verbatim>\<open>displayName\<close>
  and \<^verbatim>\<open>photos[0].value\<close>.
\<close>

definition scenario_profile :: jsval where
  "scenario_profile =
     JObj [(''id'', JStr ''42''),
           (''displayName'', JStr ''A''),
           (''emails'', JArr [JObj [(''value'', JStr ''a@x.com''), (''verified'', JBool True)]]),
           (''photos'', JArr [JObj [(''value'', JStr ''http://img'')]])]"

definition scenario_user :: jsval where
  "scenario_user =
     JObj [(''id'', JStr ''42''), (''email'', JStr ''a@x.com''), (''name'', JStr ''A''),
           (''provider'', JStr ''google''), (''avatarUrl'', JStr ''http://img'')]"

text \<open>A profile whose only email entry is not verified.\<close>

definition unverified_profile :: jsval where
  "unverified_profile =
     JObj [(''id'', JStr ''42''),
           (''displayName'', JStr ''A''),
           (''emails'', JArr [JObj [(''value'', JStr ''a@x.com''), (''verified'', JBool False)]]),
           (''photos'', JArr [JObj [(''value'', JStr ''http://img'')]])]"

text \<open>A profile whose first email entry is not verified and whose second one is.\<close>

definition mixed_profile :: jsval where
  "mixed_profile =
     JObj [(''id'', JStr ''42''),
           (''displayName'', JStr ''A''),
           (''emails'', JArr [JObj [(''value'', JStr ''old@x.com''), (''verified'', JBool False)],
                              JObj [(''value'', JStr ''a@x.com''), (''verified'', JBool True)]]),
           (''photos'', JArr [JObj [(''value'', JStr ''http://img'')]])]"

text \<open>Profiles of an account without a picture: no photo list, and an empty one.\<close>

definition no_photos_profile :: jsval where
  "no_photos_profile =
     JObj [(''id'', JStr ''42''),
           (''displayName'', JStr ''A''),
           (''emails'', JArr [JObj [(''value'', JStr ''a@x.com''), (''verified'', JBool True)]])]"

definition empty_photos_profile :: jsval where
  "empty_photos_profile =
     JObj [(''id'', JStr ''42''),
           (''displayName'', JStr ''A''),
           (''emails'', JArr [JObj [(''value'', JStr ''a@x.com''), (''verified'', JBool True)]]),
           (''photos'', JArr [])]"

text \<open>An environment with both credentials, and a request without a session.\<close>

definition configured_env :: env where
  "configured_env =
     map_of [(''GOOGLE_CLIENT_ID'', ''client-id''), (''GOOGLE_CLIENT_SECRET'', ''client-secret'')]"

definition anonymous :: request where
  "anonymous = \<lparr>isAuthenticated = False, user = Undefined\<rparr>"

text \<open>
  A provider that accepts the authorization code \<^verbatim>\<open>validcode\<close> alone and answers
  with the scenario's profile.
\<close>

definition scenario_provider :: provider where
  "scenario_provider =
     \<lparr>getOAuthAccessToken = (\<lambda>code. if code = JStr ''validcode''
                                      then Inr (JStr ''access-token'', Undefined)
                                      else Inl (Error ''Failed to obtain access token'')),
      userProfile = (\<lambda>token. if token = JStr ''access-token''
                              then Inr scenario_profile
                              else Inl (Error ''Failed to fetch user profile''))\<rparr>"

definition forged_callback :: callback where
  "forged_callback =
     \<lparr>query_code = JStr ''validcode'', query_state = JStr ''forged'',
      session_state = oauth2_begin (strategy_options configured_env) ''abc123''\<rparr>"

text \<open>A request of the user of the scenario, logged in.\<close>

definition logged_in :: request where
  "logged_in = \<lparr>isAuthenticated = True, user = scenario_user\<rparr>"

text \<open>
  A strategy constructor that throws without a client id, and an
  \<^verbatim>\<open>authenticate\<close> that knows no strategy.
\<close>

definition strict_constructor :: "jsval \<Rightarrow> js_error + unit" where
  "strict_constructor opts =
     (if truthy (js_prop opts ''clientID'') then Inr ()
      else Inl (TypeError ''OAuth2Strategy requires a clientID option''))"

definition no_strategy :: "string \<Rightarrow> jsval \<Rightarrow> handler" where
  "no_strategy name opts req = Inl (Error ''Unknown authentication strategy'')"

text \<open>
  A limiter that has counted \<open>hits\<close> requests of the client in the current window,
  this one included: once the count exceeds the maximum it answers with status 429 and
  the configured message.
\<close>

definition counting_limit :: "nat \<Rightarrow> rate_options \<Rightarrow> middleware" where
  "counting_limit hits opts req =
     (if max_opt opts < hits then Some \<lparr>status = 429, body = Html (message opts)\<rparr> else None)"

text \<open>The error a failing session store hands to the logout callback.\<close>

definition store_failure :: jsval where
  "store_failure = JObj [(''message'', JStr ''session store unavailable'')]"

text \<open>
  A store with the session \<^verbatim>\<open>s1\<close> created at time 1000, and operations of other
  sessions.
\<close>

definition scenario_store :: store where
  "scenario_store = create Map.empty 1000 ''s1''"

definition scenario_ops :: "store_op list" where
  "scenario_ops = [Create 2000 ''s2'', Attach 3000 ''s2'' Null, Destroy ''s2'', Destroy ''s3'']"

section \<open>Shared facts\<close>

lemma bind_err_Inr_iff: "bind_err m f = Inr y \<longleftrightarrow> (\<exists>x. m = Inr x \<and> f x = Inr y)"
  by (cases m) (simp_all add: bind_err_def)

lemma js_get_truthy: "truthy v \<Longrightarrow> \<exists>x. js_get v k = Inr x"
  by (cases v) simp_all

lemma verify_Inr:
  assumes "verify a r p = Inr u"
  shows "\<exists>pid emails email0 mail dn photos photo0 av.
           js_get p ''id'' = Inr pid \<and> js_get p ''emails'' = Inr emails \<and>
           js_at0 emails = Inr email0 \<and> js_get email0 ''value'' = Inr mail \<and>
           js_get p ''displayName'' = Inr dn \<and> js_get p ''photos'' = Inr photos \<and>
           js_at0 photos = Inr photo0 \<and> js_get photo0 ''value'' = Inr av \<and>
           u = JObj [(''id'', pid), (''email'', mail), (''name'', dn),
                     (''provider'', JStr ''google''), (''avatarUrl'', av)]"
  using assms unfolding verify_def bind_err_Inr_iff by blast

lemma verify_scenario:
  "verify (JStr ''access-token'') Undefined scenario_profile = Inr scenario_user"
  by (simp add: verify_def scenario_profile_def scenario_user_def bind_err_def)

lemma no_state_checking: "\<not> state_checking (strategy_options e)"
  by (simp add: state_checking_def strategy_options_def js_prop_def)

section \<open>The access guard\<close>

text \<open>
  Claim C2 says that every request to a protected route without an authenticated
  session is answered with status 401. \<^verbatim>\<open>/api/user\<close> lies behind the rate limiter
  mounted on \<^verbatim>\<open>/api/\<close>: the 101st request of a window is answered by the limiter
  with status 429 and its message, before \<open>requireAuth\<close> runs.
\<close>

theorem rate_limited_before_guard:
  \<open>\<not> isAuthenticated anonymous \<and>
   serve (api_user_route (counting_limit 101)) anonymous =
     \<lparr>status = 429,
      body = Html ''Too many requests from this IP, please try again later.''\<rparr>\<close>
  by (simp add: anonymous_def serve_def api_user_route_def limiter_def counting_limit_def)

text \<open>
  Claim C2, amended. For a request that carries no authenticated session,
  \<open>requireAuth\<close> answers with status 401 and the JSON body
  \<^verbatim>\<open>{"error":"Authentication required"}\<close> whatever the downstream handler \<open>next\<close>
  is, so that handler is not executed. That is the server's answer on \<^verbatim>\<open>/dashboard\<close>,
  and on \<^verbatim>\<open>/api/user\<close> for every request the rate limiter lets through; a request
  the limiter refuses gets the limiter's answer.
\<close>

theorem requireAuth_rejects_unauthenticated:
  assumes "\<not> isAuthenticated req"
  shows "requireAuth req next =
           Inr \<lparr>status = 401, body = Json (JObj [(''error'', JStr ''Authentication required'')])\<rparr>
       \<and> serve dashboard_route req =
           \<lparr>status = 401, body = Json (JObj [(''error'', JStr ''Authentication required'')])\<rparr>
       \<and> (limiter rateLimit req = None \<longrightarrow>
            serve (api_user_route rateLimit) req =
              \<lparr>status = 401, body = Json (JObj [(''error'', JStr ''Authentication required'')])\<rparr>)
       \<and> (limiter rateLimit req = Some r \<longrightarrow> serve (api_user_route rateLimit) req = r)"
  using assms
  by (simp add: requireAuth_def dashboard_route_def api_user_route_def serve_def res_json_def)

text \<open>
  At the anonymous request the dashboard handler itself would throw; behind the guard
  it is not reached. The 100th request of a window passes the limiter.
\<close>

theorem requireAuth_rejects_unauthenticated_witness:
  "\<not> isAuthenticated anonymous \<and>
   dashboard anonymous = Inl (TypeError ''name'') \<and>
   requireAuth anonymous dashboard =
     Inr \<lparr>status = 401, body = Json (JObj [(''error'', JStr ''Authentication required'')])\<rparr> \<and>
   serve dashboard_route anonymous =
     \<lparr>status = 401, body = Json (JObj [(''error'', JStr ''Authentication required'')])\<rparr> \<and>
   limiter (counting_limit 100) anonymous = None \<and>
   serve (api_user_route (counting_limit 100)) anonymous =
     \<lparr>status = 401, body = Json (JObj [(''error'', JStr ''Authentication required'')])\<rparr>"
proof -
  have h: "\<not> isAuthenticated anonymous" by (simp add: anonymous_def)
  have d: "dashboard anonymous = Inl (TypeError ''name'')"
    by (simp add: dashboard_def anonymous_def bind_err_def)
  have l: "limiter (counting_limit 100) anonymous = None"
    by (simp add: limiter_def counting_limit_def)
  show ?thesis
    using h d l requireAuth_rejects_unauthenticated [OF h, of dashboard "counting_limit 100"]
    by simp
qed

section \<open>The health route\<close>

text \<open>
  Claim C10. For the same environment and clock value the \<^verbatim>\<open>/health\<close> handler of
  the enhanced server and that of the basic server return the same response, with the
  JSON body \<^verbatim>\<open>{status, timestamp, env}\<close>, whatever the requests are.
\<close>

theorem health_unchanged:
  "health e now req = health_basic e now req' \<and>
   health e now req =
     \<lparr>status = 200,
      body = Json (JObj [(''status'', JStr ''healthy''), (''timestamp'', JStr now),
                         (''env'', js_or (env_get e ''NODE_ENV'') (JStr ''development''))])\<rparr>"
  by (simp add: health_def health_basic_def res_json_def)

section \<open>Missing provider credentials\<close>

text \<open>
  Claim C6. When the client id is absent from the environment (unset or empty), as it
  is when both credentials are absent, \<^verbatim>\<open>GET /auth/google\<close> answers with status 500
  and the body \<^verbatim>\<open>{"error":"Google OAuth not configured"}\<close> without calling the
  strategy, start-up succeeds without constructing a strategy, and \<^verbatim>\<open>GET /health\<close>
  is served as usual.
\<close>

theorem unconfigured_login:
  assumes "\<not> truthy (env_get e ''GOOGLE_CLIENT_ID'')"
  shows "auth_google e authenticate req =
           Inr \<lparr>status = 500, body = Json (JObj [(''error'', JStr ''Google OAuth not configured'')])\<rparr>
       \<and> startup mk e = Inr \<lparr>strategies = []\<rparr>
       \<and> health e now req =
           \<lparr>status = 200,
            body = Json (JObj [(''status'', JStr ''healthy''), (''timestamp'', JStr now),
                               (''env'', js_or (env_get e ''NODE_ENV'') (JStr ''development''))])\<rparr>"
  using assms by (simp add: auth_google_def startup_def health_def res_json_def)

theorem unconfigured_login_witness:
  "\<not> truthy (env_get Map.empty ''GOOGLE_CLIENT_ID'') \<and>
   strict_constructor (strategy_options Map.empty) =
     Inl (TypeError ''OAuth2Strategy requires a clientID option'') \<and>
   auth_google Map.empty no_strategy anonymous =
     Inr \<lparr>status = 500, body = Json (JObj [(''error'', JStr ''Google OAuth not configured'')])\<rparr> \<and>
   startup strict_constructor Map.empty = Inr \<lparr>strategies = []\<rparr> \<and>
   health Map.empty ''2026-01-01T00:00:00.000Z'' anonymous =
     \<lparr>status = 200,
      body = Json (JObj [(''status'', JStr ''healthy''),
                         (''timestamp'', JStr ''2026-01-01T00:00:00.000Z''),
                         (''env'', JStr ''development'')])\<rparr>"
proof -
  have h: "\<not> truthy (env_get Map.empty ''GOOGLE_CLIENT_ID'')" by (simp add: env_get_def)
  have c: "strict_constructor (strategy_options Map.empty) =
             Inl (TypeError ''OAuth2Strategy requires a clientID option'')"
    by (simp add: strict_constructor_def strategy_options_def js_prop_def env_get_def)
  show ?thesis
    using h c
      unconfigured_login [OF h, of no_strategy anonymous strict_constructor
                                   "''2026-01-01T00:00:00.000Z''"]
    by (simp add: js_or_def env_get_def)
qed

section \<open>The home page\<close>

text \<open>
  Claim C9. The handler of \<^verbatim>\<open>GET /\<close> produces a response without throwing whether
  or not the request is authenticated. \<^verbatim>\<open>req.user\<close> is read only in the branch where
  \<^verbatim>\<open>isAuthenticated()\<close> is true, so the response to an anonymous request does not
  depend on it; an authenticated request carries a user, which is the contract of
  \<^verbatim>\<open>isAuthenticated()\<close>.
\<close>

theorem home_never_faults:
  assumes "isAuthenticated req \<longrightarrow> truthy (user req)"
  shows "(\<exists>html. home e req = Inr (res_send html)) \<and>
         (\<not> isAuthenticated req \<longrightarrow> home e (req\<lparr>user := u\<rparr>) = home e req)"
proof (cases "isAuthenticated req")
  case True
  with assms obtain x where "js_get (user req) ''email'' = Inr x"
    using js_get_truthy by blast
  with True show ?thesis
    unfolding home_def Let_def bind_err_def by (simp only: if_True sum.case) blast
next
  case False
  then have a: "\<exists>html. home e req = Inr (res_send html)"
    unfolding home_def Let_def bind_err_def by (simp only: if_False sum.case) blast
  from False have "isAuthenticated (req\<lparr>user := u\<rparr>) = isAuthenticated req" by simp
  then have b: "home e (req\<lparr>user := u\<rparr>) = home e req"
    using False unfolding home_def Let_def by (simp only: if_False)
  from a b show ?thesis by blast
qed

theorem home_never_faults_witness:
  "\<not> isAuthenticated anonymous \<and>
   (\<exists>html. home Map.empty anonymous = Inr (res_send html)) \<and>
   home Map.empty (anonymous\<lparr>user := Null\<rparr>) = home Map.empty anonymous \<and>
   isAuthenticated logged_in \<and> truthy (user logged_in) \<and>
   (\<exists>html. home Map.empty logged_in = Inr (res_send html))"
proof -
  have n: "\<not> isAuthenticated anonymous" by (simp add: anonymous_def)
  then have h: "isAuthenticated anonymous \<longrightarrow> truthy (user anonymous)" by simp
  have t: "isAuthenticated logged_in" "truthy (user logged_in)"
    by (simp_all add: logged_in_def scenario_user_def)
  then have l: "isAuthenticated logged_in \<longrightarrow> truthy (user logged_in)" by simp
  show ?thesis
    using n t home_never_faults [OF h, of Map.empty Null] home_never_faults [OF l, of Map.empty Null]
    by simp
qed

section \<open>Logout\<close>

text \<open>
  Claim C3 says that an error of the session store is never surfaced by
  \<^verbatim>\<open>GET /auth/logout\<close>. The handler tests the error that \<^verbatim>\<open>req.logout\<close> reports
  and answers it with status 500.
\<close>

theorem logout_error_surfaces:
  "auth_logout store_failure anonymous =
     \<lparr>status = 500, body = Json (JObj [(''error'', JStr ''Logout failed'')])\<rparr>"
  by (simp add: auth_logout_def store_failure_def res_json_def)

text \<open>
  Claim C3, amended. \<^verbatim>\<open>GET /auth/logout\<close> redirects to the home page whenever
  \<^verbatim>\<open>req.logout\<close> reports no error, for every request and so also for a repeated
  logout; when \<^verbatim>\<open>req.logout\<close> reports an error the handler answers with status 500
  and the body \<^verbatim>\<open>{"error":"Logout failed"}\<close>.
\<close>

theorem logout_outcome:
  "(\<not> truthy err \<longrightarrow> auth_logout err req = \<lparr>status = 302, body = Redirect ''/''\<rparr>) \<and>
   (truthy err \<longrightarrow>
      auth_logout err req =
        \<lparr>status = 500, body = Json (JObj [(''error'', JStr ''Logout failed'')])\<rparr>)"
  by (simp add: auth_logout_def res_json_def res_redirect_def)

theorem logout_outcome_witness:
  "\<not> truthy Undefined \<and>
   auth_logout Undefined logged_in = \<lparr>status = 302, body = Redirect ''/''\<rparr> \<and>
   auth_logout Undefined anonymous = \<lparr>status = 302, body = Redirect ''/''\<rparr> \<and>
   truthy store_failure \<and> status (auth_logout store_failure anonymous) = 500"
proof -
  have t: "truthy store_failure" by (simp add: store_failure_def)
  show ?thesis
    using t logout_outcome [of Undefined logged_in] logout_outcome [of Undefined anonymous]
          logout_outcome [of store_failure anonymous]
    by simp
qed

section \<open>From the provider profile to the user\<close>

text \<open>
  Claim C4 says that a login fails when the profile has no verified email entry, and
  that the email is that of the first verified entry. \<open>verify\<close> does not read the
  \<^verbatim>\<open>verified\<close> flag: it succeeds on a profile whose only entry is unverified, and
  given an unverified entry followed by a verified one it takes the unverified one.
\<close>

theorem verify_ignores_verified_flag:
  "verify (JStr ''access-token'') Undefined unverified_profile = Inr scenario_user \<and>
   verify (JStr ''access-token'') Undefined mixed_profile =
     Inr (JObj [(''id'', JStr ''42''), (''email'', JStr ''old@x.com''), (''name'', JStr ''A''),
                (''provider'', JStr ''google''), (''avatarUrl'', JStr ''http://img'')])"
  by (simp add: verify_def unverified_profile_def mixed_profile_def scenario_user_def bind_err_def)

text \<open>
  Claim C4, amended. Whenever \<open>verify\<close> succeeds, the email of the user is the
  value of the first email entry of the profile, verified or not.
\<close>

theorem verify_email_is_first_entry:
  assumes "verify a r p = Inr u"
  shows "js_prop u ''email'' = first_value (js_prop p ''emails'')"
proof -
  from verify_Inr [OF assms] obtain pid emails email0 mail dn av where
    e: "js_get p ''emails'' = Inr emails" "js_at0 emails = Inr email0"
       "js_get email0 ''value'' = Inr mail"
    and u: "u = JObj [(''id'', pid), (''email'', mail), (''name'', dn),
                     (''provider'', JStr ''google''), (''avatarUrl'', av)]"
    by blast
  from u have "js_prop u ''email'' = mail" by (simp add: js_prop_def)
  moreover from e have "first_value (js_prop p ''emails'') = mail"
    by (simp add: js_prop_def first_value_def bind_err_def)
  ultimately show ?thesis by simp
qed

theorem verify_email_is_first_entry_witness:
  "verify (JStr ''access-token'') Undefined mixed_profile =
     Inr (JObj [(''id'', JStr ''42''), (''email'', JStr ''old@x.com''), (''name'', JStr ''A''),
                (''provider'', JStr ''google''), (''avatarUrl'', JStr ''http://img'')]) \<and>
   first_value (js_prop mixed_profile ''emails'') = JStr ''old@x.com''"
proof -
  have h: "verify (JStr ''access-token'') Undefined mixed_profile =
     Inr (JObj [(''id'', JStr ''42''), (''email'', JStr ''old@x.com''), (''name'', JStr ''A''),
                (''provider'', JStr ''google''), (''avatarUrl'', JStr ''http://img'')])"
    by (simp add: verify_def mixed_profile_def bind_err_def)
  show ?thesis using h verify_email_is_first_entry [OF h] by (simp add: js_prop_def)
qed

text \<open>
  Claim C7 says that the mapping from profile to user is total when the photo list is
  empty or absent. \<open>verify\<close> reads \<^verbatim>\<open>profile.photos[0].value\<close> unguarded and throws
  a TypeError in both cases: reading \<^verbatim>\<open>[0]\<close> of \<^verbatim>\<open>undefined\<close> when the list is
  absent, reading \<^verbatim>\<open>value\<close> of \<^verbatim>\<open>undefined\<close> when it is empty.
\<close>

theorem verify_without_photo_throws:
  "verify (JStr ''access-token'') Undefined no_photos_profile = Inl (TypeError ''0'') \<and>
   verify (JStr ''access-token'') Undefined empty_photos_profile = Inl (TypeError ''value'')"
  by (simp add: verify_def no_photos_profile_def empty_photos_profile_def bind_err_def)

text \<open>
  Claim C5 says that an authenticated \<^verbatim>\<open>GET /api/user\<close> after the login returns the
  JSON object of the Principal. \<^verbatim>\<open>/api/user\<close> lies behind the rate limiter mounted
  on \<^verbatim>\<open>/api/\<close>: for the user of the scenario, logged in, the 101st request of a
  window is answered by the limiter with status 429 and its message.
\<close>

theorem api_user_rate_limited:
  \<open>verify (JStr ''access-token'') Undefined scenario_profile = Inr scenario_user \<and>
   isAuthenticated logged_in \<and> user logged_in = scenario_user \<and>
   api_user_route (counting_limit 101) logged_in =
     Inr \<lparr>status = 429,
          body = Html ''Too many requests from this IP, please try again later.''\<rparr>\<close>
  by (simp add: verify_scenario logged_in_def api_user_route_def limiter_def counting_limit_def)

text \<open>
  Claim C5, amended. For every profile whose \<^verbatim>\<open>id\<close> (the provider's \<^verbatim>\<open>sub\<close>),
  \<^verbatim>\<open>emails[0].value\<close> (its \<^verbatim>\<open>email\<close>), \<^verbatim>\<open>displayName\<close> (its \<^verbatim>\<open>name\<close>)
  and \<^verbatim>\<open>photos[0].value\<close> (its \<^verbatim>\<open>picture\<close>) can be read, \<open>verify\<close>
  succeeds, and the resulting user is the Principal with \<^verbatim>\<open>externalId\<close> the
  \<^verbatim>\<open>sub\<close>, \<^verbatim>\<open>email\<close> the email, \<^verbatim>\<open>displayName\<close> the name, \<^verbatim>\<open>provider\<close>
  the string \<^verbatim>\<open>google\<close> and \<^verbatim>\<open>avatarUrl\<close> the picture. The user passes unchanged
  through \<open>serializeUser\<close> and \<open>deserializeUser\<close>, and an authenticated
  \<^verbatim>\<open>GET /api/user\<close> for it that the rate limiter lets through answers with status 200
  and the JSON object \<^verbatim>\<open>{id, email, name, provider, avatarUrl}\<close> of those values.
\<close>

theorem verified_profile_to_api_user:
  assumes "js_get p ''id'' = Inr sub"
      and "first_value_of p ''emails'' = Inr mail"
      and "js_get p ''displayName'' = Inr nm"
      and "first_value_of p ''photos'' = Inr picture"
      and "u = JObj [(''id'', sub), (''email'', mail), (''name'', nm),
                     (''provider'', JStr ''google''), (''avatarUrl'', picture)]"
  shows "verify a r p = Inr u
       \<and> principal_of u =
           \<lparr>externalId = sub, email = mail, displayName = nm, provider = JStr ''google'',
            avatarUrl = picture\<rparr>
       \<and> bind_err (serializeUser u) deserializeUser = Inr u
       \<and> (limiter rateLimit \<lparr>isAuthenticated = True, user = u\<rparr> = None \<longrightarrow>
            api_user_route rateLimit \<lparr>isAuthenticated = True, user = u\<rparr> =
              Inr \<lparr>status = 200,
                   body = Json (JObj [(''id'', sub), (''email'', mail), (''name'', nm),
                                      (''provider'', JStr ''google''),
                                      (''avatarUrl'', picture)])\<rparr>)"
proof -
  from assms(2) obtain emails email0 where
    e: "js_get p ''emails'' = Inr emails" "js_at0 emails = Inr email0"
       "js_get email0 ''value'' = Inr mail"
    unfolding first_value_of_def bind_err_Inr_iff by blast
  from assms(4) obtain photos photo0 where
    f: "js_get p ''photos'' = Inr photos" "js_at0 photos = Inr photo0"
       "js_get photo0 ''value'' = Inr picture"
    unfolding first_value_of_def bind_err_Inr_iff by blast
  have 0: "verify a r p = Inr u"
    by (simp add: verify_def bind_err_def assms(1) assms(3) assms(5) e f)
  have 1: "principal_of u =
             \<lparr>externalId = sub, email = mail, displayName = nm, provider = JStr ''google'',
              avatarUrl = picture\<rparr>"
    by (simp add: assms(5) principal_of_def js_prop_def)
  have 2: "bind_err (serializeUser u) deserializeUser = Inr u"
    by (simp add: serializeUser_def deserializeUser_def bind_err_def)
  have 3: "limiter rateLimit \<lparr>isAuthenticated = True, user = u\<rparr> = None \<Longrightarrow>
           api_user_route rateLimit \<lparr>isAuthenticated = True, user = u\<rparr> =
             Inr \<lparr>status = 200,
                  body = Json (JObj [(''id'', sub), (''email'', mail), (''name'', nm),
                                     (''provider'', JStr ''google''),
                                     (''avatarUrl'', picture)])\<rparr>"
    by (simp add: assms(5) api_user_route_def requireAuth_def api_user_def bind_err_def
          res_json_def)
  from 0 1 2 3 show ?thesis by blast
qed

text \<open>The end-to-end scenario of the specification, as the first request of a window.\<close>

theorem verified_profile_to_api_user_witness:
  "verify (JStr ''access-token'') Undefined scenario_profile = Inr scenario_user \<and>
   principal_of scenario_user =
     \<lparr>externalId = JStr ''42'', email = JStr ''a@x.com'', displayName = JStr ''A'',
      provider = JStr ''google'', avatarUrl = JStr ''http://img''\<rparr> \<and>
   limiter (counting_limit 1) \<lparr>isAuthenticated = True, user = scenario_user\<rparr> = None \<and>
   api_user_route (counting_limit 1) \<lparr>isAuthenticated = True, user = scenario_user\<rparr> =
     Inr \<lparr>status = 200,
          body = Json (JObj [(''id'', JStr ''42''), (''email'', JStr ''a@x.com''),
                             (''name'', JStr ''A''), (''provider'', JStr ''google''),
                             (''avatarUrl'', JStr ''http://img'')])\<rparr>"
proof -
  have i: "js_get scenario_profile ''id'' = Inr (JStr ''42'')"
    by (simp add: scenario_profile_def)
  have m: "first_value_of scenario_profile ''emails'' = Inr (JStr ''a@x.com'')"
    by (simp add: scenario_profile_def first_value_of_def bind_err_def)
  have n: "js_get scenario_profile ''displayName'' = Inr (JStr ''A'')"
    by (simp add: scenario_profile_def)
  have c: "first_value_of scenario_profile ''photos'' = Inr (JStr ''http://img'')"
    by (simp add: scenario_profile_def first_value_of_def bind_err_def)
  have u: "scenario_user =
             JObj [(''id'', JStr ''42''), (''email'', JStr ''a@x.com''), (''name'', JStr ''A''),
                   (''provider'', JStr ''google''), (''avatarUrl'', JStr ''http://img'')]"
    by (simp add: scenario_user_def)
  have l: "limiter (counting_limit 1) \<lparr>isAuthenticated = True, user = scenario_user\<rparr> = None"
    by (simp add: limiter_def counting_limit_def)
  show ?thesis
    using l verified_profile_to_api_user [OF i m n c u,
            of "JStr ''access-token''" Undefined "counting_limit 1"]
    by simp
qed

section \<open>The session between login and logout\<close>

lemma run_op_other: "op_sid x \<noteq> sid \<Longrightarrow> run_op st x sid = st sid"
  by (cases x) (auto simp: create_def attach_def destroy_def split: option.splits)

lemma run_ops_other: "\<forall>x \<in> set ops. op_sid x \<noteq> sid \<Longrightarrow> run_ops st ops sid = st sid"
  unfolding run_ops_def
  by (induction ops arbitrary: st) (simp_all add: run_op_other)

lemma login_stored:
  assumes "login st t1 sid p = Inr st1" and "st sid = Some s"
  shows "st1 sid = Some (s\<lparr>stored := Some p\<rparr>) \<and> t1 < expiresAt s"
  using assms
  by (auto simp: login_def serializeUser_def attach_def get_def split: option.splits if_splits)

lemma scenario_session:
  "scenario_store ''s1'' = Some \<lparr>stored = None, createdAt = 1000, expiresAt = 1000 + maxAge\<rparr>"
  by (simp add: scenario_store_def create_def)

lemma scenario_login:
  "login scenario_store 5000 ''s1'' scenario_user =
     Inr (scenario_store(''s1'' \<mapsto>
            \<lparr>stored = Some scenario_user, createdAt = 1000, expiresAt = 1000 + maxAge\<rparr>))"
  by (simp add: login_def serializeUser_def attach_def get_def scenario_session maxAge_def)

text \<open>
  Claim C8. After a completed login of the session \<open>sid\<close> with the Principal
  \<open>p\<close>, and whatever operations on other sessions follow, \<open>authorize\<close> returns
  \<open>p\<close> at every time before the session's expiry, and a protected route then runs
  its handler with \<open>p\<close> as the user; from the expiry on, and after the session is
  destroyed, it returns \<open>Unauthenticated\<close>. Serializing and deserializing gives the
  Principal back unchanged.
\<close>

theorem authorize_returns_login_principal:
  assumes "st sid = Some s"
      and "login st t1 sid p = Inr st1"
      and "\<forall>x \<in> set ops. op_sid x \<noteq> sid"
  shows "(t2 < expiresAt s \<longrightarrow>
            authorize (run_ops st1 ops) t2 sid = Authenticated p \<and>
            requireAuth (request_of (run_ops st1 ops) t2 sid) next =
              next \<lparr>isAuthenticated = True, user = p\<rparr>)
       \<and> (expiresAt s \<le> t2 \<longrightarrow> authorize (run_ops st1 ops) t2 sid = Unauthenticated)
       \<and> authorize (destroy (run_ops st1 ops) sid) t2 sid = Unauthenticated
       \<and> bind_err (serializeUser p) deserializeUser = Inr p"
proof -
  from login_stored [OF assms(2) assms(1)] have "st1 sid = Some (s\<lparr>stored := Some p\<rparr>)"
    by simp
  with run_ops_other [OF assms(3)] have r: "run_ops st1 ops sid = Some (s\<lparr>stored := Some p\<rparr>)"
    by simp
  have a: "t2 < expiresAt s \<Longrightarrow> authorize (run_ops st1 ops) t2 sid = Authenticated p"
    using r by (simp add: authorize_def get_def deserializeUser_def)
  have b: "t2 < expiresAt s \<Longrightarrow>
           requireAuth (request_of (run_ops st1 ops) t2 sid) next =
             next \<lparr>isAuthenticated = True, user = p\<rparr>"
    using a by (simp add: request_of_def requireAuth_def)
  have c: "expiresAt s \<le> t2 \<Longrightarrow> authorize (run_ops st1 ops) t2 sid = Unauthenticated"
    using r by (simp add: authorize_def get_def)
  have d: "authorize (destroy (run_ops st1 ops) sid) t2 sid = Unauthenticated"
    by (simp add: authorize_def get_def destroy_def)
  have e: "bind_err (serializeUser p) deserializeUser = Inr p"
    by (simp add: serializeUser_def deserializeUser_def bind_err_def)
  from a b c d e show ?thesis by blast
qed

text \<open>
  The session created at time 1000 expires at 86401000: one millisecond earlier the
  Principal of the login is still returned.
\<close>

theorem authorize_returns_login_principal_witness:
  "authorize
     (run_ops (scenario_store(''s1'' \<mapsto>
        \<lparr>stored = Some scenario_user, createdAt = 1000, expiresAt = 1000 + maxAge\<rparr>))
        scenario_ops)
     86400999 ''s1'' = Authenticated scenario_user \<and>
   authorize
     (run_ops (scenario_store(''s1'' \<mapsto>
        \<lparr>stored = Some scenario_user, createdAt = 1000, expiresAt = 1000 + maxAge\<rparr>))
        scenario_ops)
     86401000 ''s1'' = Unauthenticated"
proof -
  have o: "\<forall>x \<in> set scenario_ops. op_sid x \<noteq> ''s1''" by (simp add: scenario_ops_def)
  have m: "86400999 < expiresAt \<lparr>stored = None, createdAt = 1000, expiresAt = 1000 + maxAge\<rparr>"
    by (simp add: maxAge_def)
  have m': "expiresAt \<lparr>stored = None, createdAt = 1000, expiresAt = 1000 + maxAge\<rparr> \<le> 86401000"
    by (simp add: maxAge_def)
  show ?thesis
    using authorize_returns_login_principal [OF scenario_session scenario_login o, of 86400999]
          authorize_returns_login_principal [OF scenario_session scenario_login o, of 86401000]
          m m'
    by simp
qed

section \<open>The callback and the anti-forgery state\<close>

text \<open>
  Claim C1 says that a callback whose state differs from the one issued by the
  preceding login request fails before any authorization-code exchange. The server
  constructs the strategy without the \<^verbatim>\<open>state\<close> option: the login request issues no
  state, and a callback with a valid code and a forged state is exchanged, verified and
  redirected to the dashboard.
\<close>

theorem callback_accepts_forged_state:
  "query_state forged_callback \<noteq> session_state forged_callback \<and>
   auth_google_callback configured_env scenario_provider forged_callback =
     ([Exchange (JStr ''validcode''), FetchProfile (JStr ''access-token'')],
      Some \<lparr>status = 302, body = Redirect ''/dashboard''\<rparr>)"
proof -
  have c: "truthy (env_get configured_env ''GOOGLE_CLIENT_ID'')"
          "truthy (env_get configured_env ''GOOGLE_CLIENT_SECRET'')"
    by (simp_all add: configured_env_def env_get_def)
  have s: "session_state forged_callback = Undefined"
    using no_state_checking by (simp add: forged_callback_def oauth2_begin_def)
  have q: "query_state forged_callback = JStr ''forged''"
          "query_code forged_callback = JStr ''validcode''"
    by (simp_all add: forged_callback_def)
  have "oauth2_complete (strategy_options configured_env) scenario_provider forged_callback =
          ([Exchange (JStr ''validcode''), FetchProfile (JStr ''access-token'')],
           Success scenario_user)"
    using no_state_checking [of configured_env]
    by (simp add: oauth2_complete_def q scenario_provider_def verify_scenario scenario_user_def)
  then show ?thesis
    using c by (simp add: auth_google_callback_def s q res_redirect_def)
qed

text \<open>
  Claim C1, amended. The login request issues no anti-forgery state, and the response
  to a callback, with the provider calls made for it, does not depend on the state the
  callback carries nor on any state held in the session: the callback is decided by the
  authorization-code exchange, the profile fetch and \<open>verify\<close> alone.
\<close>

theorem callback_ignores_state:
  "oauth2_begin (strategy_options e) nonce = Undefined \<and>
   auth_google_callback e prov (cb\<lparr>query_state := s, session_state := t\<rparr>) =
     auth_google_callback e prov cb"
proof -
  have n: "\<not> state_checking (strategy_options e)" by (rule no_state_checking)
  have q: "query_code (cb\<lparr>query_state := s, session_state := t\<rparr>) = query_code cb" by simp
  have "oauth2_complete (strategy_options e) prov (cb\<lparr>query_state := s, session_state := t\<rparr>) =
        oauth2_complete (strategy_options e) prov cb"
    unfolding oauth2_complete_def by (simp only: n q simp_thms if_False)
  then show ?thesis
    using n by (simp add: oauth2_begin_def auth_google_callback_def)
qed

end
